theory Spec2Isabelle
  imports Main
begin

section \<open>Data model (types.ts)\<close>

datatype Suit = Spades | Hearts | Diamonds | Clubs

datatype Rank = RA | R2 | R3 | R4 | R5 | R6 | R7 | R8 | R9 | R10 | RJ | RQ | RK

text \<open>The table \<^verbatim>\<open>RANK_VALUES\<close> of types.ts.\<close>

fun RANK_VALUES :: "Rank \<Rightarrow> int" where
  "RANK_VALUES RA = 1"
| "RANK_VALUES R2 = 2"
| "RANK_VALUES R3 = 3"
| "RANK_VALUES R4 = 4"
| "RANK_VALUES R5 = 5"
| "RANK_VALUES R6 = 6"
| "RANK_VALUES R7 = 7"
| "RANK_VALUES R8 = 8"
| "RANK_VALUES R9 = 9"
| "RANK_VALUES R10 = 10"
| "RANK_VALUES RJ = 11"
| "RANK_VALUES RQ = 12"
| "RANK_VALUES RK = 13"

text \<open>
  The interface \<^verbatim>\<open>Card\<close>. Its field \<^verbatim>\<open>id\<close> is called \<open>card_id\<close> here, since
  \<open>id\<close> is the identity function of HOL.
\<close>

record Card =
  card_id :: string
  suit :: Suit
  rank :: Rank
  isFaceUp :: bool

text \<open>\<^verbatim>\<open>Tableau = Card[][]\<close>: a column is stored bottom to top, the top card last.\<close>

type_synonym Tableau = "Card list list"

record GameState =
  tableau :: Tableau
  stock :: "Card list"
  foundations :: int
  moves :: int
  score :: int

section \<open>The rules engine (utils/gameLogic)\<close>

text \<open>
  The controller imports \<^verbatim>\<open>isValidMove\<close>, \<^verbatim>\<open>canMoveSequence\<close>,
  \<^verbatim>\<open>checkAndRemoveCompleteSet\<close>, \<^verbatim>\<open>createDeck\<close> and \<^verbatim>\<open>dealInitial\<close> from
  \<^verbatim>\<open>./utils/gameLogic\<close>. That module is not among the source files, so the functions below
  follow sections 4.2 to 4.5 of the specification.
\<close>

text \<open>
  Modelled from the spec: the run condition of section 4.3 (the body of \<^verbatim>\<open>canMoveSequence\<close>,
  missing with utils/gameLogic): consecutive cards form a strictly descending same-suit run, each
  card's rank value being the previous card's rank value minus 1.
\<close>

fun descendingSameSuit :: "Card list \<Rightarrow> bool" where
  "descendingSameSuit (a # b # rest) =
     (suit b = suit a \<and> RANK_VALUES (rank b) = RANK_VALUES (rank a) - 1 \<and>
      descendingSameSuit (b # rest))"
| "descendingSameSuit [a] = True"
| "descendingSameSuit [] = True"

text \<open>
  Modelled from the spec: \<^verbatim>\<open>canMoveSequence\<close> of utils/gameLogic (section 4.3): true iff the
  sequence is non-empty, every card in it is face-up, and consecutive cards form a strictly
  descending same-suit run.
\<close>

definition canMoveSequence :: "Card list \<Rightarrow> bool" where
  "canMoveSequence cards =
     (cards \<noteq> [] \<and> list_all isFaceUp cards \<and> descendingSameSuit cards)"

text \<open>
  Modelled from the spec: \<^verbatim>\<open>isValidMove\<close> of utils/gameLogic (section 4.4). The destination
  top card is \<open>None\<close> when it is absent (\<^verbatim>\<open>undefined\<close>). True iff the destination exists and
  the moving sequence's bottom card has rank value exactly one less than the destination's; the
  suits are not compared. The specification names the bottom card of the moving sequence, so a
  sequence that has none falls under "returns false otherwise".
\<close>

definition isValidMove :: "Card list \<Rightarrow> Card option \<Rightarrow> bool" where
  "isValidMove movingCards destCard =
     (case destCard of
        None \<Rightarrow> False
      | Some dest \<Rightarrow>
          (case movingCards of
             [] \<Rightarrow> False
           | bottom # others \<Rightarrow> RANK_VALUES (rank bottom) = RANK_VALUES (rank dest) - 1))"

text \<open>
  Lines 83-84 and 144-145 of the controller, and the "expose new top card" step of section 4.5:
  \<^verbatim>\<open>if (nextCol.length > 0) nextCol[nextCol.length - 1].isFaceUp = true\<close>.
\<close>

definition exposeTop :: "Card list \<Rightarrow> Card list" where
  "exposeTop nextCol =
     (if length nextCol > 0
      then nextCol[length nextCol - 1 := (nextCol ! (length nextCol - 1))\<lparr>isFaceUp := True\<rparr>]
      else nextCol)"

text \<open>
  Modelled from the spec: the detection of section 4.5 (inside \<^verbatim>\<open>checkAndRemoveCompleteSet\<close>,
  missing with utils/gameLogic): 13 cards that form a complete same-suit descending run from King
  (rank value 13) down to Ace (rank value 1) with no gaps, all face-up.
\<close>

definition isCompleteSet :: "Card list \<Rightarrow> bool" where
  "isCompleteSet run =
     (length run = 13 \<and> list_all isFaceUp run \<and> descendingSameSuit run \<and>
      RANK_VALUES (rank (hd run)) = 13 \<and> RANK_VALUES (rank (last run)) = 1)"

text \<open>The result object \<^verbatim>\<open>{ newColumn, removed }\<close>.\<close>

record CompleteSetResult =
  newColumn :: "Card list"
  removed :: bool

text \<open>
  Modelled from the spec: \<^verbatim>\<open>checkAndRemoveCompleteSet\<close> of utils/gameLogic (section 4.5). If
  the last 13 cards of the column form a complete set, they are excised from the tail, the new top
  card (if any card remains) is set face-up and \<open>removed\<close> is true. If the column has fewer than
  13 cards or the tail is not a complete set, \<open>removed\<close> is false and the column is returned
  unchanged.
\<close>

definition checkAndRemoveCompleteSet :: "Card list \<Rightarrow> CompleteSetResult" where
  "checkAndRemoveCompleteSet column =
     (if length column < 13 then \<lparr>newColumn = column, removed = False\<rparr>
      else if isCompleteSet (drop (length column - 13) column)
        then \<lparr>newColumn = exposeTop (take (length column - 13) column), removed = True\<rparr>
        else \<lparr>newColumn = column, removed = False\<rparr>)"

text \<open>
  Modelled from the spec: \<^verbatim>\<open>dealInitial\<close> of utils/gameLogic (section 4.2), missing with that
  module. The first 4 columns get 6 cards each and the remaining 6 columns 5 cards each, in
  order, taken from the front of the deck; the top card of every column is then set face-up and
  the remaining cards form the stock in deal order. The result object
  \<^verbatim>\<open>{ tableau, remainingStock }\<close> is a pair.
\<close>

fun dealColumns :: "nat list \<Rightarrow> Card list \<Rightarrow> Tableau" where
  "dealColumns [] deck = []"
| "dealColumns (n # sizes) deck = exposeTop (take n deck) # dealColumns sizes (drop n deck)"

definition dealInitial :: "Card list \<Rightarrow> Tableau \<times> Card list" where
  "dealInitial deck = (dealColumns [6, 6, 6, 6, 5, 5, 5, 5, 5, 5] deck, drop 54 deck)"

section \<open>The game controller (the component App)\<close>

text \<open>
  The state of the component: \<^verbatim>\<open>gameState\<close> (null before the first \<^verbatim>\<open>initGame\<close>),
  \<^verbatim>\<open>selectedCards\<close> and \<^verbatim>\<open>gameWon\<close>. The state \<^verbatim>\<open>difficulty\<close> only chooses the deck
  that \<^verbatim>\<open>createDeck\<close> builds and is left out. Indices are array indices, hence natural
  numbers.
\<close>

record Selection =
  colIndex :: nat
  cardIndex :: nat

record App =
  gameState :: "GameState option"
  selectedCards :: "Selection option"
  gameWon :: bool

text \<open>
  Reading a property of \<^verbatim>\<open>undefined\<close> (a column index beyond the tableau) throws a
  TypeError; the handler then sets no state.
\<close>

datatype error = TypeError

text \<open>The component before its first effect has run.\<close>

definition mounted :: App where
  "mounted = \<lparr>gameState = None, selectedCards = None, gameWon = False\<rparr>"

text \<open>
  \<^verbatim>\<open>initGame\<close>, lines 12-24. \<^verbatim>\<open>createDeck\<close> shuffles at random, so the deck it returns
  is the argument here.
\<close>

definition initGame :: "Card list \<Rightarrow> App" where
  "initGame deck =
     (case dealInitial deck of
        (tableau0, remainingStock) \<Rightarrow>
          \<lparr>gameState = Some \<lparr>tableau = tableau0, stock = remainingStock,
                              foundations = 0, moves = 0, score = 500\<rparr>,
           selectedCards = None,
           gameWon = False\<rparr>)"

text \<open>
  The loop of \<^verbatim>\<open>handleDeal\<close>, lines 44-50, from counter \<open>i\<close> on. \<^verbatim>\<open>newStock.pop()\<close>
  removes and returns the last card, or returns \<^verbatim>\<open>undefined\<close> on an empty array; the card is
  set face-up and pushed on column \<open>i\<close>, and \<^verbatim>\<open>newTableau[i].push\<close> throws when the tableau
  has no column \<open>i\<close>.
\<close>

function dealLoop :: "nat \<Rightarrow> Card list \<Rightarrow> Tableau \<Rightarrow> error + (Card list \<times> Tableau)" where
  "dealLoop i newStock newTableau =
     (if i < 10 then
        (if newStock = [] then dealLoop (i + 1) newStock newTableau
         else if i < length newTableau then
           dealLoop (i + 1) (butlast newStock)
             (newTableau[i := newTableau ! i @ [(last newStock)\<lparr>isFaceUp := True\<rparr>]])
         else Inl TypeError)
      else Inr (newStock, newTableau))"
  by pat_completeness auto
termination
  by (relation "measure (\<lambda>(i, newStock, newTableau). 10 - i)") auto

declare dealLoop.simps [simp del]

text \<open>
  \<^verbatim>\<open>handleDeal\<close>, lines 30-58. The second component of the result is the text of the
  \<^verbatim>\<open>alert\<close>, if one was shown.
\<close>

definition handleDeal :: "App \<Rightarrow> error + (App \<times> string option)" where
  "handleDeal app =
     (case gameState app of
        None \<Rightarrow> Inr (app, None)
      | Some gs \<Rightarrow>
          if length (stock gs) = 0 then Inr (app, None)
          else if list_ex (\<lambda>col. length col = 0) (tableau gs) then
            Inr (app, Some ''All columns must have at least one card before dealing from the stock.'')
          else
            (case dealLoop 0 (stock gs) (tableau gs) of
               Inl e \<Rightarrow> Inl e
             | Inr (newStock, newTableau) \<Rightarrow>
                 Inr (app\<lparr>gameState :=
                        Some (gs\<lparr>stock := newStock, tableau := newTableau,
                                 moves := moves gs + 1\<rparr>)\<rparr>,
                      None)))"

text \<open>
  The callback of \<^verbatim>\<open>gameState.tableau.map\<close> in \<^verbatim>\<open>handleCardClick\<close>, lines 81-91: the
  source column keeps the cards below the selection with its new top card exposed, the clicked
  column receives the moving cards on top.
\<close>

definition moveOnto :: "Selection \<Rightarrow> nat \<Rightarrow> Card list \<Rightarrow> Tableau \<Rightarrow> Tableau" where
  "moveOnto sel clickedCol movingCards t =
     map (\<lambda>(idx, col).
            if idx = colIndex sel then exposeTop (take (cardIndex sel) col)
            else if idx = clickedCol then col @ movingCards
            else col)
         (enumerate 0 t)"

text \<open>
  The callback of \<^verbatim>\<open>gameState.tableau.map\<close> in \<^verbatim>\<open>handleEmptyColumnClick\<close>, lines 142-152:
  the clicked column becomes a copy of the moving cards.
\<close>

definition moveToEmpty :: "Selection \<Rightarrow> nat \<Rightarrow> Card list \<Rightarrow> Tableau \<Rightarrow> Tableau" where
  "moveToEmpty sel clickedCol movingCards t =
     map (\<lambda>(idx, col).
            if idx = colIndex sel then exposeTop (take (cardIndex sel) col)
            else if idx = clickedCol then movingCards
            else col)
         (enumerate 0 t)"

text \<open>
  Lines 94-99: every column goes through \<^verbatim>\<open>checkAndRemoveCompleteSet\<close> once;
  \<^verbatim>\<open>removedCount\<close> counts the columns that reported a removal.
\<close>

definition removeCompleteSets :: "Tableau \<Rightarrow> Tableau \<times> int" where
  "removeCompleteSets newTableau =
     (map (\<lambda>col. newColumn (checkAndRemoveCompleteSet col)) newTableau,
      int (length (filter (\<lambda>col. removed (checkAndRemoveCompleteSet col)) newTableau)))"

text \<open>
  \<^verbatim>\<open>handleCardClick\<close>, lines 60-133; the parameters \<^verbatim>\<open>colIndex\<close> and \<^verbatim>\<open>cardIndex\<close> are
  called \<open>clickedCol\<close> and \<open>clickedCard\<close> (the fields of the selection keep the names).
  \<^verbatim>\<open>column[cardIndex]\<close> in line 64 throws when the tableau has no such column, and so does
  \<^verbatim>\<open>sourceCol.slice\<close> in line 75. \<^verbatim>\<open>destCol[destCol.length - 1]\<close> is \<^verbatim>\<open>undefined\<close> on an
  empty column. Both the moving cards and the remaining column are slices at the selected index.
\<close>

definition handleCardClick :: "nat \<Rightarrow> nat \<Rightarrow> App \<Rightarrow> error + App" where
  "handleCardClick clickedCol clickedCard app =
     (case gameState app of
        None \<Rightarrow> Inr app
      | Some gs \<Rightarrow>
          if \<not> clickedCol < length (tableau gs) then Inl TypeError
          else
            let column = tableau gs ! clickedCol in
            (case selectedCards app of
               Some sel \<Rightarrow>
                 if colIndex sel = clickedCol then Inr (app\<lparr>selectedCards := None\<rparr>)
                 else if \<not> colIndex sel < length (tableau gs) then Inl TypeError
                 else
                   let sourceCol = tableau gs ! colIndex sel;
                       movingCards = drop (cardIndex sel) sourceCol;
                       destCol = tableau gs ! clickedCol;
                       destCard = (if destCol = [] then None else Some (last destCol))
                   in
                     if isValidMove movingCards destCard then
                       (let newTableau = moveOnto sel clickedCol movingCards (tableau gs);
                            (finalTableau, removedCount) = removeCompleteSets newTableau;
                            newFoundations = foundations gs + removedCount
                        in Inr (app\<lparr>gameState :=
                                  Some (gs\<lparr>tableau := finalTableau,
                                           foundations := newFoundations,
                                           moves := moves gs + 1,
                                           score := score gs + removedCount * 100 - 1\<rparr>),
                                selectedCards := None,
                                gameWon := (if newFoundations = 8 then True else gameWon app)\<rparr>))
                     else
                       (let potentialMovingCards = drop clickedCard column in
                          if canMoveSequence potentialMovingCards
                          then Inr (app\<lparr>selectedCards :=
                                      Some \<lparr>colIndex = clickedCol, cardIndex = clickedCard\<rparr>\<rparr>)
                          else Inr (app\<lparr>selectedCards := None\<rparr>))
             | None \<Rightarrow>
                 (let movingCards = drop clickedCard column in
                    if canMoveSequence movingCards
                    then Inr (app\<lparr>selectedCards :=
                                Some \<lparr>colIndex = clickedCol, cardIndex = clickedCard\<rparr>\<rparr>)
                    else Inr app)))"

text \<open>
  \<^verbatim>\<open>handleEmptyColumnClick\<close>, lines 135-162. Neither \<^verbatim>\<open>isValidMove\<close> nor
  \<^verbatim>\<open>checkAndRemoveCompleteSet\<close> is called here.
\<close>

definition handleEmptyColumnClick :: "nat \<Rightarrow> App \<Rightarrow> error + App" where
  "handleEmptyColumnClick clickedCol app =
     (case gameState app of
        None \<Rightarrow> Inr app
      | Some gs \<Rightarrow>
          (case selectedCards app of
             None \<Rightarrow> Inr app
           | Some sel \<Rightarrow>
               if \<not> colIndex sel < length (tableau gs) then Inl TypeError
               else
                 let sourceCol = tableau gs ! colIndex sel;
                     movingCards = drop (cardIndex sel) sourceCol;
                     newTableau = moveToEmpty sel clickedCol movingCards (tableau gs)
                 in Inr (app\<lparr>gameState :=
                           Some (gs\<lparr>tableau := newTableau,
                                    moves := moves gs + 1,
                                    score := score gs - 1\<rparr>),
                         selectedCards := None\<rparr>)))"

text \<open>
  The \<^verbatim>\<open>onClick\<close> of a column's element, lines 219-223: it is rendered for the columns of
  the tableau and calls \<^verbatim>\<open>handleEmptyColumnClick\<close> only when the column is empty.
\<close>

definition columnOnClick :: "nat \<Rightarrow> App \<Rightarrow> error + App" where
  "columnOnClick colIdx app =
     (case gameState app of
        None \<Rightarrow> Inr app
      | Some gs \<Rightarrow>
          if colIdx < length (tableau gs) \<and> length (tableau gs ! colIdx) = 0
          then handleEmptyColumnClick colIdx app
          else Inr app)"

text \<open>
  What the player can do: start a game (\<^verbatim>\<open>initGame\<close>, also run when the component mounts),
  click the stock (\<^verbatim>\<open>handleDeal\<close>, line 257), click a card (line 233) or click a column
  (lines 219-223).
\<close>

datatype Action = NewGame "Card list" | Deal | CardClick nat nat | ColumnClick nat

text \<open>
  The state after an action, or \<open>None\<close> when the page does not offer the action or the
  handler throws (no state is set then). Nothing but the start of a game is offered before
  \<^verbatim>\<open>gameState\<close> is set (line 164). The stock can be clicked while it holds cards
  (lines 253-257); a card or a column can be clicked where it is rendered, that is for the
  columns and cards of the current tableau (lines 215 and 228).

  Modelled from the spec: \<^verbatim>\<open>createDeck\<close> of utils/gameLogic (section 4.1), missing with
  that module, returns an array of 104 cards, shuffled at random; the deck is the argument of
  \<open>NewGame\<close>, and any list of 104 cards is admitted.
\<close>

definition perform :: "Action \<Rightarrow> App \<Rightarrow> App option" where
  "perform action app =
     (case action of
        NewGame deck \<Rightarrow> if length deck = 104 then Some (initGame deck) else None
      | Deal \<Rightarrow>
          (case gameState app of
             None \<Rightarrow> None
           | Some gs \<Rightarrow>
               if length (stock gs) > 0
               then (case handleDeal app of Inl e \<Rightarrow> None | Inr (app', msg) \<Rightarrow> Some app')
               else None)
      | CardClick colIdx cardIdx \<Rightarrow>
          (case gameState app of
             None \<Rightarrow> None
           | Some gs \<Rightarrow>
               if colIdx < length (tableau gs) \<and> cardIdx < length (tableau gs ! colIdx)
               then (case handleCardClick colIdx cardIdx app of
                       Inl e \<Rightarrow> None | Inr app' \<Rightarrow> Some app')
               else None)
      | ColumnClick colIdx \<Rightarrow>
          (case gameState app of
             None \<Rightarrow> None
           | Some gs \<Rightarrow>
               if colIdx < length (tableau gs)
               then (case columnOnClick colIdx app of Inl e \<Rightarrow> None | Inr app' \<Rightarrow> Some app')
               else None))"

text \<open>The states the player can bring about, starting from the mounted component.\<close>

inductive reachable :: "App \<Rightarrow> bool" where
  reach_mounted: "reachable mounted"
| reach_perform: "reachable app \<Longrightarrow> perform action app = Some app' \<Longrightarrow> reachable app'"

text \<open>A sequence of actions, performed in order.\<close>

fun play :: "Action list \<Rightarrow> App \<Rightarrow> App option" where
  "play [] app = Some app"
| "play (action # actions) app =
     (case perform action app of None \<Rightarrow> None | Some app' \<Rightarrow> play actions app')"

text \<open>The number of cards in play: the tableau, the stock, and 13 for every completed set.\<close>

definition totalCards :: "GameState \<Rightarrow> int" where
  "totalCards gs =
     int (sum_list (map length (tableau gs))) + int (length (stock gs)) + 13 * foundations gs"

section \<open>Example cards\<close>

text \<open>The string literals of the type \<^verbatim>\<open>Rank\<close>.\<close>

fun rankName :: "Rank \<Rightarrow> string" where
  "rankName RA = ''A''"
| "rankName R2 = ''2''"
| "rankName R3 = ''3''"
| "rankName R4 = ''4''"
| "rankName R5 = ''5''"
| "rankName R6 = ''6''"
| "rankName R7 = ''7''"
| "rankName R8 = ''8''"
| "rankName R9 = ''9''"
| "rankName R10 = ''10''"
| "rankName RJ = ''J''"
| "rankName RQ = ''Q''"
| "rankName RK = ''K''"

text \<open>A face-up card; the tag keeps the identifiers of equal cards apart.\<close>

definition faceUp :: "string \<Rightarrow> Suit \<Rightarrow> Rank \<Rightarrow> Card" where
  "faceUp tag s r = \<lparr>card_id = rankName r @ tag, suit = s, rank = r, isFaceUp = True\<rparr>"

definition faceDown :: "string \<Rightarrow> Suit \<Rightarrow> Rank \<Rightarrow> Card" where
  "faceDown tag s r = \<lparr>card_id = rankName r @ tag, suit = s, rank = r, isFaceUp = False\<rparr>"

text \<open>King down to Ace, all face-up, in one suit.\<close>

definition kingToAce :: "string \<Rightarrow> Suit \<Rightarrow> Card list" where
  "kingToAce tag s = map (faceUp tag s) [RK, RQ, RJ, R10, R9, R8, R7, R6, R5, R4, R3, R2, RA]"

text \<open>Cards of one suit, face-down or face-up, given by rank and tag.\<close>

definition cardsDown :: "Suit \<Rightarrow> (Rank \<times> string) list \<Rightarrow> Card list" where
  "cardsDown s cs = map (\<lambda>(r, tag). faceDown tag s r) cs"

definition cardsUp :: "Suit \<Rightarrow> (Rank \<times> string) list \<Rightarrow> Card list" where
  "cardsUp s cs = map (\<lambda>(r, tag). faceUp tag s r) cs"

text \<open>
  A shuffled deck of the one-suit game (difficulty 1): 8 copies of every rank, all Spades, all
  face-down.
\<close>

definition demoDeck :: "Card list" where
  "demoDeck =
     cardsDown Spades
       [(RA, ''-1''), (R2, ''-1''), (R3, ''-1''), (R4, ''-1''), (R6, ''-1''), (RK, ''-1''),
        (R7, ''-1''), (R9, ''-1''), (R10, ''-1''), (RJ, ''-1''), (RK, ''-2''), (R9, ''-2''),
        (RA, ''-2''), (R3, ''-2''), (R5, ''-1''), (R6, ''-2''), (R8, ''-1''), (R5, ''-2''),
        (R10, ''-2''), (RQ, ''-1''), (RK, ''-3''), (R2, ''-2''), (R4, ''-2''), (R6, ''-3''),
        (R2, ''-3''), (R3, ''-3''), (R4, ''-3''), (R5, ''-3''), (RJ, ''-2''), (R7, ''-2''),
        (R9, ''-3''), (RJ, ''-3''), (RK, ''-4''), (RQ, ''-2''), (R3, ''-4''), (R5, ''-4''),
        (R8, ''-2''), (RJ, ''-4''), (RA, ''-3''), (R4, ''-4''), (R7, ''-3''), (R10, ''-3''),
        (RK, ''-5''), (R4, ''-5''), (R8, ''-3''), (RQ, ''-3''), (R2, ''-4''), (R7, ''-4''),
        (RJ, ''-5''), (R3, ''-5''), (R8, ''-4''), (RK, ''-6''), (R5, ''-5''), (RQ, ''-4''),
        (R5, ''-6''), (RJ, ''-6''), (R5, ''-7''), (RK, ''-7''), (RQ, ''-5''), (R6, ''-4''),
        (R8, ''-5''), (R3, ''-6''), (RK, ''-8''), (R8, ''-6''), (R9, ''-4''), (R7, ''-5''),
        (R6, ''-5''), (R5, ''-8''), (R6, ''-6''), (R7, ''-6''), (R9, ''-5''), (RQ, ''-6''),
        (R3, ''-7''), (RA, ''-4''), (RQ, ''-7''), (R9, ''-6''), (R9, ''-7''), (RJ, ''-7''),
        (R4, ''-6''), (R8, ''-7''), (R2, ''-5''), (R2, ''-6''), (R6, ''-7''), (R10, ''-4''),
        (R10, ''-5''), (RA, ''-5''), (R10, ''-6''), (R10, ''-7''), (R2, ''-7''), (R9, ''-8''),
        (RA, ''-6''), (R3, ''-8''), (R7, ''-7''), (RJ, ''-8''), (R7, ''-8''), (R6, ''-8''),
        (R4, ''-7''), (R2, ''-8''), (RA, ''-7''), (R10, ''-8''), (RA, ''-8''), (R4, ''-8''),
        (R8, ''-8''), (RQ, ''-8'')]"

text \<open>
  The player starts a game and moves the five cards of column 4 away, one at a time.
\<close>

definition openingPlay :: "Action list" where
  "openingPlay =
     [NewGame demoDeck, CardClick 4 4, CardClick 5 4, CardClick 4 3, CardClick 3 5,
      CardClick 4 2, CardClick 3 6, CardClick 4 1, CardClick 3 7, CardClick 4 0, CardClick 3 8]"

text \<open>
  The game after \<open>openingPlay\<close>: column 4 is empty and the stock holds 50 cards.
\<close>

definition emptyColumnState :: GameState where
  "emptyColumnState =
     \<lparr>tableau =
        [cardsDown Spades
           [(RA, ''-1''), (R2, ''-1''), (R3, ''-1''), (R4, ''-1''), (R6, ''-1'')] @
         cardsUp Spades
           [(RK, ''-1'')],
         cardsDown Spades
           [(R7, ''-1''), (R9, ''-1''), (R10, ''-1''), (RJ, ''-1''), (RK, ''-2'')] @
         cardsUp Spades
           [(R9, ''-2'')],
         cardsDown Spades
           [(RA, ''-2''), (R3, ''-2''), (R5, ''-1''), (R6, ''-2''), (R8, ''-1'')] @
         cardsUp Spades
           [(R5, ''-2'')],
         cardsDown Spades
           [(R10, ''-2''), (RQ, ''-1''), (RK, ''-3''), (R2, ''-2''), (R4, ''-2'')] @
         cardsUp Spades
           [(R6, ''-3''), (R5, ''-3''), (R4, ''-3''), (R3, ''-3''), (R2, ''-3'')],
         [],
         cardsDown Spades
           [(R7, ''-2''), (R9, ''-3''), (RJ, ''-3''), (RK, ''-4'')] @
         cardsUp Spades
           [(RQ, ''-2''), (RJ, ''-2'')],
         cardsDown Spades
           [(R3, ''-4''), (R5, ''-4''), (R8, ''-2''), (RJ, ''-4'')] @
         cardsUp Spades
           [(RA, ''-3'')],
         cardsDown Spades
           [(R4, ''-4''), (R7, ''-3''), (R10, ''-3''), (RK, ''-5'')] @
         cardsUp Spades
           [(R4, ''-5'')],
         cardsDown Spades
           [(R8, ''-3''), (RQ, ''-3''), (R2, ''-4''), (R7, ''-4'')] @
         cardsUp Spades
           [(RJ, ''-5'')],
         cardsDown Spades
           [(R3, ''-5''), (R8, ''-4''), (RK, ''-6''), (R5, ''-5'')] @
         cardsUp Spades
           [(RQ, ''-4'')]],
      stock = cardsDown Spades
          [(R5, ''-6''), (RJ, ''-6''), (R5, ''-7''), (RK, ''-7''), (RQ, ''-5''), (R6, ''-4''),
           (R8, ''-5''), (R3, ''-6''), (RK, ''-8''), (R8, ''-6''), (R9, ''-4''), (R7, ''-5''),
           (R6, ''-5''), (R5, ''-8''), (R6, ''-6''), (R7, ''-6''), (R9, ''-5''), (RQ, ''-6''),
           (R3, ''-7''), (RA, ''-4''), (RQ, ''-7''), (R9, ''-6''), (R9, ''-7''), (RJ, ''-7''),
           (R4, ''-6''), (R8, ''-7''), (R2, ''-5''), (R2, ''-6''), (R6, ''-7''), (R10, ''-4''),
           (R10, ''-5''), (RA, ''-5''), (R10, ''-6''), (R10, ''-7''), (R2, ''-7''),
           (R9, ''-8''), (RA, ''-6''), (R3, ''-8''), (R7, ''-7''), (RJ, ''-8''), (R7, ''-8''),
           (R6, ''-8''), (R4, ''-7''), (R2, ''-8''), (RA, ''-7''), (R10, ''-8''), (RA, ''-8''),
           (R4, ''-8''), (R8, ''-8''), (RQ, ''-8'')],
      foundations = 0, moves = 5, score = 495\<rparr>"

definition emptyColumnGame :: App where
  "emptyColumnGame =
     \<lparr>gameState = Some emptyColumnState, selectedCards = None,
      gameWon = False\<rparr>"

text \<open>
  The player fills column 4 again, deals three times, builds King down to 2 on column 0, deals
  twice (the Ace and an 8 land on column 0) and moves the run of column 4 away.
\<close>

definition middlePlay :: "Action list" where
  "middlePlay =
     [CardClick 5 5, ColumnClick 4, Deal, Deal, Deal, CardClick 1 5, CardClick 0 8,
      CardClick 2 5, CardClick 0 12, Deal, Deal, CardClick 4 0, CardClick 5 9]"

text \<open>
  The game after \<open>middlePlay\<close>: the stock and column 4 are empty, and column 0 holds
  King down to Ace under an 8.
\<close>

definition blockedState :: GameState where
  "blockedState =
     \<lparr>tableau =
        [cardsDown Spades
           [(RA, ''-1''), (R2, ''-1''), (R3, ''-1''), (R4, ''-1''), (R6, ''-1'')] @
         cardsUp Spades
           [(RK, ''-1''), (RQ, ''-8''), (RJ, ''-8''), (R10, ''-4''), (R9, ''-2''), (R8, ''-8''),
            (R7, ''-7''), (R6, ''-7''), (R5, ''-2''), (R4, ''-8''), (R3, ''-8''), (R2, ''-6''),
            (RA, ''-4''), (R8, ''-6'')],
         cardsDown Spades
           [(R7, ''-1''), (R9, ''-1''), (R10, ''-1''), (RJ, ''-1'')] @
         cardsUp Spades
           [(RK, ''-2''), (R3, ''-7''), (RK, ''-8'')],
         cardsDown Spades
           [(RA, ''-2''), (R3, ''-2''), (R5, ''-1''), (R6, ''-2'')] @
         cardsUp Spades
           [(R8, ''-1''), (RQ, ''-6''), (R3, ''-6'')],
         cardsDown Spades
           [(R10, ''-2''), (RQ, ''-1''), (RK, ''-3''), (R2, ''-2''), (R4, ''-2'')] @
         cardsUp Spades
           [(R6, ''-3''), (R5, ''-3''), (R4, ''-3''), (R3, ''-3''), (R2, ''-3''), (RA, ''-8''),
            (RA, ''-6''), (R2, ''-5''), (R9, ''-5''), (R8, ''-5'')],
         [],
         cardsDown Spades
           [(R7, ''-2''), (R9, ''-3''), (RJ, ''-3''), (RK, ''-4'')] @
         cardsUp Spades
           [(RQ, ''-2''), (RA, ''-7''), (R2, ''-7''), (R4, ''-6''), (R6, ''-6''), (RQ, ''-5''),
            (RJ, ''-2''), (R10, ''-8''), (R9, ''-8''), (R8, ''-7''), (R7, ''-6''), (R6, ''-4'')],
         cardsDown Spades
           [(R3, ''-4''), (R5, ''-4''), (R8, ''-2''), (RJ, ''-4'')] @
         cardsUp Spades
           [(RA, ''-3''), (R2, ''-8''), (R10, ''-7''), (RJ, ''-7''), (R5, ''-8''), (RK, ''-7'')],
         cardsDown Spades
           [(R4, ''-4''), (R7, ''-3''), (R10, ''-3''), (RK, ''-5'')] @
         cardsUp Spades
           [(R4, ''-5''), (R4, ''-7''), (R10, ''-6''), (R9, ''-7''), (R6, ''-5''), (R5, ''-7'')],
         cardsDown Spades
           [(R8, ''-3''), (RQ, ''-3''), (R2, ''-4''), (R7, ''-4'')] @
         cardsUp Spades
           [(RJ, ''-5''), (R6, ''-8''), (RA, ''-5''), (R9, ''-6''), (R7, ''-5''), (RJ, ''-6'')],
         cardsDown Spades
           [(R3, ''-5''), (R8, ''-4''), (RK, ''-6''), (R5, ''-5'')] @
         cardsUp Spades
           [(RQ, ''-4''), (R7, ''-8''), (R10, ''-5''), (RQ, ''-7''), (R9, ''-4''), (R5, ''-6'')]],
      stock = [],
      foundations = 0, moves = 14, score = 491\<rparr>"

definition blockedGame :: App where
  "blockedGame =
     \<lparr>gameState = Some blockedState, selectedCards = None,
      gameWon = False\<rparr>"

text \<open>The player has selected the 8 on top of column 0.\<close>

definition selectedGame :: App where
  "selectedGame = blockedGame\<lparr>selectedCards := Some \<lparr>colIndex = 0, cardIndex = 18\<rparr>\<rparr>"

text \<open>
  The game after the 8 went to the empty column 4: column 0 ends with King down to Ace.
\<close>

definition unremovedState :: GameState where
  "unremovedState =
     \<lparr>tableau =
        [cardsDown Spades
           [(RA, ''-1''), (R2, ''-1''), (R3, ''-1''), (R4, ''-1''), (R6, ''-1'')] @
         cardsUp Spades
           [(RK, ''-1''), (RQ, ''-8''), (RJ, ''-8''), (R10, ''-4''), (R9, ''-2''), (R8, ''-8''),
            (R7, ''-7''), (R6, ''-7''), (R5, ''-2''), (R4, ''-8''), (R3, ''-8''), (R2, ''-6''),
            (RA, ''-4'')],
         cardsDown Spades
           [(R7, ''-1''), (R9, ''-1''), (R10, ''-1''), (RJ, ''-1'')] @
         cardsUp Spades
           [(RK, ''-2''), (R3, ''-7''), (RK, ''-8'')],
         cardsDown Spades
           [(RA, ''-2''), (R3, ''-2''), (R5, ''-1''), (R6, ''-2'')] @
         cardsUp Spades
           [(R8, ''-1''), (RQ, ''-6''), (R3, ''-6'')],
         cardsDown Spades
           [(R10, ''-2''), (RQ, ''-1''), (RK, ''-3''), (R2, ''-2''), (R4, ''-2'')] @
         cardsUp Spades
           [(R6, ''-3''), (R5, ''-3''), (R4, ''-3''), (R3, ''-3''), (R2, ''-3''), (RA, ''-8''),
            (RA, ''-6''), (R2, ''-5''), (R9, ''-5''), (R8, ''-5'')],
         cardsUp Spades
           [(R8, ''-6'')],
         cardsDown Spades
           [(R7, ''-2''), (R9, ''-3''), (RJ, ''-3''), (RK, ''-4'')] @
         cardsUp Spades
           [(RQ, ''-2''), (RA, ''-7''), (R2, ''-7''), (R4, ''-6''), (R6, ''-6''), (RQ, ''-5''),
            (RJ, ''-2''), (R10, ''-8''), (R9, ''-8''), (R8, ''-7''), (R7, ''-6''), (R6, ''-4'')],
         cardsDown Spades
           [(R3, ''-4''), (R5, ''-4''), (R8, ''-2''), (RJ, ''-4'')] @
         cardsUp Spades
           [(RA, ''-3''), (R2, ''-8''), (R10, ''-7''), (RJ, ''-7''), (R5, ''-8''), (RK, ''-7'')],
         cardsDown Spades
           [(R4, ''-4''), (R7, ''-3''), (R10, ''-3''), (RK, ''-5'')] @
         cardsUp Spades
           [(R4, ''-5''), (R4, ''-7''), (R10, ''-6''), (R9, ''-7''), (R6, ''-5''), (R5, ''-7'')],
         cardsDown Spades
           [(R8, ''-3''), (RQ, ''-3''), (R2, ''-4''), (R7, ''-4'')] @
         cardsUp Spades
           [(RJ, ''-5''), (R6, ''-8''), (RA, ''-5''), (R9, ''-6''), (R7, ''-5''), (RJ, ''-6'')],
         cardsDown Spades
           [(R3, ''-5''), (R8, ''-4''), (RK, ''-6''), (R5, ''-5'')] @
         cardsUp Spades
           [(RQ, ''-4''), (R7, ''-8''), (R10, ''-5''), (RQ, ''-7''), (R9, ''-4''), (R5, ''-6'')]],
      stock = [],
      foundations = 0, moves = 15, score = 490\<rparr>"

definition unremovedGame :: App where
  "unremovedGame =
     \<lparr>gameState = Some unremovedState, selectedCards = None,
      gameWon = False\<rparr>"

section \<open>Properties of the rules engine\<close>

lemma descendingSameSuit_nth:
  "descendingSameSuit cards =
     (\<forall>i. Suc i < length cards \<longrightarrow>
        suit (cards ! Suc i) = suit (cards ! i) \<and>
        RANK_VALUES (rank (cards ! Suc i)) = RANK_VALUES (rank (cards ! i)) - 1)"
proof (induction cards rule: descendingSameSuit.induct)
  case (1 a b rest)
  show ?case
  proof
    assume run: "descendingSameSuit (a # b # rest)"
    show "\<forall>i. Suc i < length (a # b # rest) \<longrightarrow>
        suit ((a # b # rest) ! Suc i) = suit ((a # b # rest) ! i) \<and>
        RANK_VALUES (rank ((a # b # rest) ! Suc i)) = RANK_VALUES (rank ((a # b # rest) ! i)) - 1"
    proof (intro allI impI)
      fix i
      assume "Suc i < length (a # b # rest)"
      with run "1.IH" show "suit ((a # b # rest) ! Suc i) = suit ((a # b # rest) ! i) \<and>
        RANK_VALUES (rank ((a # b # rest) ! Suc i)) = RANK_VALUES (rank ((a # b # rest) ! i)) - 1"
        by (cases i) auto
    qed
  next
    assume steps: "\<forall>i. Suc i < length (a # b # rest) \<longrightarrow>
        suit ((a # b # rest) ! Suc i) = suit ((a # b # rest) ! i) \<and>
        RANK_VALUES (rank ((a # b # rest) ! Suc i)) = RANK_VALUES (rank ((a # b # rest) ! i)) - 1"
    from steps [rule_format, of 0]
    have first: "suit b = suit a \<and> RANK_VALUES (rank b) = RANK_VALUES (rank a) - 1"
      by simp
    have "\<forall>i. Suc i < length (b # rest) \<longrightarrow>
        suit ((b # rest) ! Suc i) = suit ((b # rest) ! i) \<and>
        RANK_VALUES (rank ((b # rest) ! Suc i)) = RANK_VALUES (rank ((b # rest) ! i)) - 1"
    proof (intro allI impI)
      fix i
      assume "Suc i < length (b # rest)"
      with steps [rule_format, of "Suc i"]
      show "suit ((b # rest) ! Suc i) = suit ((b # rest) ! i) \<and>
        RANK_VALUES (rank ((b # rest) ! Suc i)) = RANK_VALUES (rank ((b # rest) ! i)) - 1"
        by simp
    qed
    with "1.IH" first show "descendingSameSuit (a # b # rest)"
      by simp
  qed
qed simp_all

lemma descending_from_first:
  assumes "descendingSameSuit run" "i < length run"
  shows "suit (run ! i) = suit (run ! 0) \<and> RANK_VALUES (rank (run ! i)) = RANK_VALUES (rank (run ! 0)) - int i"
  using assms(2)
proof (induction i)
  case 0
  then show ?case by simp
next
  case (Suc i)
  from assms(1) Suc.prems have "suit (run ! Suc i) = suit (run ! i) \<and>
        RANK_VALUES (rank (run ! Suc i)) = RANK_VALUES (rank (run ! i)) - 1"
    by (simp add: descendingSameSuit_nth)
  with Suc show ?case by simp
qed

lemma isCompleteSet_nth:
  "isCompleteSet run =
     (length run = 13 \<and>
      (\<forall>i<13. isFaceUp (run ! i) \<and> suit (run ! i) = suit (run ! 0) \<and>
         RANK_VALUES (rank (run ! i)) = 13 - int i))"
proof
  assume c: "isCompleteSet run"
  then have len: "length run = 13" and up: "list_all isFaceUp run"
    and run: "descendingSameSuit run" and king: "RANK_VALUES (rank (hd run)) = 13"
    by (simp_all add: isCompleteSet_def)
  from len have "run \<noteq> []" by auto
  then have hd0: "hd run = run ! 0" by (simp add: hd_conv_nth)
  show "length run = 13 \<and>
      (\<forall>i<13. isFaceUp (run ! i) \<and> suit (run ! i) = suit (run ! 0) \<and>
         RANK_VALUES (rank (run ! i)) = 13 - int i)"
  proof (intro conjI allI impI)
    show "length run = 13" by (rule len)
  next
    fix i :: nat assume "i < 13"
    with len have i: "i < length run" by simp
    with up show "isFaceUp (run ! i)" by (simp add: list_all_length)
    from descending_from_first [OF run i] show "suit (run ! i) = suit (run ! 0)" by simp
    from descending_from_first [OF run i] king hd0
    show "RANK_VALUES (rank (run ! i)) = 13 - int i" by simp
  qed
next
  assume r: "length run = 13 \<and>
      (\<forall>i<13. isFaceUp (run ! i) \<and> suit (run ! i) = suit (run ! 0) \<and>
         RANK_VALUES (rank (run ! i)) = 13 - int i)"
  then have len: "length run = 13" by (rule conjunct1)
  from r have at: "\<And>i. i < 13 \<Longrightarrow> isFaceUp (run ! i) \<and> suit (run ! i) = suit (run ! 0) \<and>
         RANK_VALUES (rank (run ! i)) = 13 - int i" by blast
  from len have ne: "run \<noteq> []" by auto
  have hd0: "hd run = run ! 0" using ne by (simp add: hd_conv_nth)
  have last12: "last run = run ! 12" using ne len by (simp add: last_conv_nth)
  have "descendingSameSuit run"
    unfolding descendingSameSuit_nth
  proof (intro allI impI)
    fix i assume "Suc i < length run"
    with len have "i < 13" "Suc i < 13" by simp_all
    from at [OF this(1)] at [OF this(2)]
    show "suit (run ! Suc i) = suit (run ! i) \<and>
        RANK_VALUES (rank (run ! Suc i)) = RANK_VALUES (rank (run ! i)) - 1"
      by simp
  qed
  moreover have "list_all isFaceUp run"
    unfolding list_all_length using at len by simp
  moreover have "RANK_VALUES (rank (hd run)) = 13" using at [of 0] hd0 by simp
  moreover have "RANK_VALUES (rank (last run)) = 1" using at [of 12] last12 by simp
  ultimately show "isCompleteSet run" using len by (simp add: isCompleteSet_def)
qed

lemma exposeTop_eq:
  "exposeTop xs = (if xs = [] then [] else butlast xs @ [(last xs)\<lparr>isFaceUp := True\<rparr>])"
proof (cases "xs = []")
  case True
  then show ?thesis by (simp add: exposeTop_def)
next
  case False
  then obtain ys y where xs: "xs = ys @ [y]" by (metis append_butlast_last_id)
  then show ?thesis by (simp add: exposeTop_def)
qed

lemma length_exposeTop: "length (exposeTop xs) = length xs"
  by (simp add: exposeTop_def)

lemma drop_exposeTop: "k < length xs \<Longrightarrow> drop k (exposeTop xs) = exposeTop (drop k xs)"
  by (simp add: exposeTop_def drop_update_swap)

lemma removed_length: "removed (checkAndRemoveCompleteSet c) \<Longrightarrow> 13 \<le> length c"
  by (simp add: checkAndRemoveCompleteSet_def split: if_splits)

lemma not_removed_newColumn:
  "\<not> removed (checkAndRemoveCompleteSet c) \<Longrightarrow> newColumn (checkAndRemoveCompleteSet c) = c"
  by (simp add: checkAndRemoveCompleteSet_def split: if_splits)

lemma removed_newColumn:
  "removed (checkAndRemoveCompleteSet c) \<Longrightarrow>
     newColumn (checkAndRemoveCompleteSet c) = exposeTop (take (length c - 13) c)"
  by (simp add: checkAndRemoveCompleteSet_def split: if_splits)

text \<open>
  C1. For every moving sequence and destination, \<open>isValidMove\<close> returns true iff a destination
  top card exists and the bottom card of the moving sequence (its first element) has rank value
  exactly one less than the destination's. The suits play no part: replacing the suit of every
  card involved leaves the result unchanged. The result is false whenever the destination is
  absent.
\<close>

theorem isValidMove_iff:
  "isValidMove movingCards destCard =
     (\<exists>dest bottom others. destCard = Some dest \<and> movingCards = bottom # others \<and>
        RANK_VALUES (rank bottom) + 1 = RANK_VALUES (rank dest))
   \<and> isValidMove (map (\<lambda>c. c\<lparr>suit := f c\<rparr>) movingCards) (map_option (\<lambda>c. c\<lparr>suit := g c\<rparr>) destCard)
       = isValidMove movingCards destCard
   \<and> \<not> isValidMove movingCards None"
  by (auto simp: isValidMove_def split: option.splits list.splits)

theorem isValidMove_iff_witness:
  "isValidMove [\<lparr>card_id = ''a'', suit = Hearts, rank = R5, isFaceUp = True\<rparr>]
     (Some \<lparr>card_id = ''b'', suit = Spades, rank = R6, isFaceUp = True\<rparr>)
   \<and> \<not> isValidMove [\<lparr>card_id = ''a'', suit = Hearts, rank = R5, isFaceUp = True\<rparr>]
     (Some \<lparr>card_id = ''c'', suit = Spades, rank = R7, isFaceUp = True\<rparr>)
   \<and> \<not> isValidMove [\<lparr>card_id = ''a'', suit = Hearts, rank = R5, isFaceUp = True\<rparr>] None"
  using isValidMove_iff [of "[\<lparr>card_id = ''a'', suit = Hearts, rank = R5, isFaceUp = True\<rparr>]"
      "Some \<lparr>card_id = ''b'', suit = Spades, rank = R6, isFaceUp = True\<rparr>"]
    isValidMove_iff [of "[\<lparr>card_id = ''a'', suit = Hearts, rank = R5, isFaceUp = True\<rparr>]"
      "Some \<lparr>card_id = ''c'', suit = Spades, rank = R7, isFaceUp = True\<rparr>"]
    isValidMove_iff [of "[\<lparr>card_id = ''a'', suit = Hearts, rank = R5, isFaceUp = True\<rparr>]" None]
  by simp

text \<open>
  C2. For every list of cards, \<open>canMoveSequence\<close> returns true iff the list is non-empty, every
  card in it is face-up, and each consecutive pair shares the same suit with the later card's
  rank value equal to the earlier card's rank value minus 1. A single face-up card yields true.
\<close>

theorem canMoveSequence_iff:
  "canMoveSequence cards =
     (cards \<noteq> [] \<and> (\<forall>c \<in> set cards. isFaceUp c) \<and>
      (\<forall>i. Suc i < length cards \<longrightarrow>
         suit (cards ! Suc i) = suit (cards ! i) \<and>
         RANK_VALUES (rank (cards ! Suc i)) = RANK_VALUES (rank (cards ! i)) - 1))
   \<and> (isFaceUp c \<longrightarrow> canMoveSequence [c])"
  unfolding canMoveSequence_def descendingSameSuit_nth [symmetric]
  by (simp add: list_all_iff)

theorem canMoveSequence_iff_witness:
  "canMoveSequence [\<lparr>card_id = ''k'', suit = Spades, rank = RK, isFaceUp = True\<rparr>,
                    \<lparr>card_id = ''q'', suit = Spades, rank = RQ, isFaceUp = True\<rparr>]
   \<and> \<not> canMoveSequence [\<lparr>card_id = ''k'', suit = Spades, rank = RK, isFaceUp = True\<rparr>,
                    \<lparr>card_id = ''q'', suit = Hearts, rank = RQ, isFaceUp = True\<rparr>]
   \<and> \<not> canMoveSequence [\<lparr>card_id = ''k'', suit = Spades, rank = RK, isFaceUp = False\<rparr>]
   \<and> canMoveSequence [\<lparr>card_id = ''k'', suit = Spades, rank = RK, isFaceUp = True\<rparr>]"
  using canMoveSequence_iff [of "[\<lparr>card_id = ''k'', suit = Spades, rank = RK, isFaceUp = True\<rparr>,
                    \<lparr>card_id = ''q'', suit = Spades, rank = RQ, isFaceUp = True\<rparr>]"]
    canMoveSequence_iff [of "[\<lparr>card_id = ''k'', suit = Spades, rank = RK, isFaceUp = True\<rparr>,
                    \<lparr>card_id = ''q'', suit = Hearts, rank = RQ, isFaceUp = True\<rparr>]"]
    canMoveSequence_iff [of "[\<lparr>card_id = ''k'', suit = Spades, rank = RK, isFaceUp = False\<rparr>]"]
    canMoveSequence_iff [of "[\<lparr>card_id = ''k'', suit = Spades, rank = RK, isFaceUp = True\<rparr>]"
      "\<lparr>card_id = ''k'', suit = Spades, rank = RK, isFaceUp = True\<rparr>"]
  by (simp add: canMoveSequence_def)

text \<open>
  C3. For every column: if its last 13 cards are all face-up, of the suit of the first of them,
  and have the rank values 13 (King) down to 1 (Ace) in order, then \<open>checkAndRemoveCompleteSet\<close>
  returns \<open>removed = True\<close> and the column without those 13 cards, the remaining top card (if
  any card remains) set face-up. If the column has fewer than 13 cards or its 13-card tail is not
  such a run, it returns \<open>removed = False\<close> and the column unchanged.
\<close>

theorem checkAndRemoveCompleteSet_spec:
  "checkAndRemoveCompleteSet column =
     (if 13 \<le> length column \<and>
         (\<forall>i<13. isFaceUp (column ! (length column - 13 + i)) \<and>
            suit (column ! (length column - 13 + i)) = suit (column ! (length column - 13)) \<and>
            RANK_VALUES (rank (column ! (length column - 13 + i))) = 13 - int i)
      then \<lparr>newColumn =
               (if length column = 13 then []
                else take (length column - 14) column @
                     [(column ! (length column - 14))\<lparr>isFaceUp := True\<rparr>]),
             removed = True\<rparr>
      else \<lparr>newColumn = column, removed = False\<rparr>)"
proof (cases "13 \<le> length column")
  case False
  then show ?thesis by (simp add: checkAndRemoveCompleteSet_def)
next
  case True
  define n where "n = length column - 13"
  have nth: "\<And>i. i < 13 \<Longrightarrow> drop n column ! i = column ! (n + i)"
    using True by (simp add: n_def)
  have len: "length (drop n column) = 13" using True by (simp add: n_def)
  have iff: "isCompleteSet (drop n column) =
     (\<forall>i<13. isFaceUp (column ! (n + i)) \<and> suit (column ! (n + i)) = suit (column ! n) \<and>
            RANK_VALUES (rank (column ! (n + i))) = 13 - int i)"
    unfolding isCompleteSet_nth using len nth [of 0]
    by (auto simp: nth)
  have rest: "exposeTop (take n column) =
      (if length column = 13 then []
                else take (length column - 14) column @
                     [(column ! (length column - 14))\<lparr>isFaceUp := True\<rparr>])"
  proof (cases "length column = 13")
    case True
    then show ?thesis by (simp add: n_def exposeTop_def)
  next
    case False
    with \<open>13 \<le> length column\<close> obtain m where m: "n = Suc m" "length column - 14 = m" "m < length column"
      by (cases n) (auto simp: n_def)
    then show ?thesis using False
      by (simp add: exposeTop_eq take_Suc_conv_app_nth butlast_take)
  qed
  show ?thesis
    using True iff rest unfolding n_def [symmetric]
    by (simp add: checkAndRemoveCompleteSet_def n_def [symmetric])
qed

theorem checkAndRemoveCompleteSet_spec_witness:
  "checkAndRemoveCompleteSet (faceDown ''-1'' Hearts R5 # kingToAce ''-2'' Clubs) =
     \<lparr>newColumn = [faceUp ''-1'' Hearts R5], removed = True\<rparr>
   \<and> checkAndRemoveCompleteSet (kingToAce ''-2'' Clubs) = \<lparr>newColumn = [], removed = True\<rparr>
   \<and> checkAndRemoveCompleteSet (kingToAce ''-2'' Clubs @ [faceUp ''-1'' Hearts R5]) =
     \<lparr>newColumn = kingToAce ''-2'' Clubs @ [faceUp ''-1'' Hearts R5], removed = False\<rparr>
   \<and> checkAndRemoveCompleteSet [faceUp ''-1'' Hearts R5] =
     \<lparr>newColumn = [faceUp ''-1'' Hearts R5], removed = False\<rparr>"
  using checkAndRemoveCompleteSet_spec [of "faceDown ''-1'' Hearts R5 # kingToAce ''-2'' Clubs"]
    checkAndRemoveCompleteSet_spec [of "kingToAce ''-2'' Clubs"]
    checkAndRemoveCompleteSet_spec [of "kingToAce ''-2'' Clubs @ [faceUp ''-1'' Hearts R5]"]
    checkAndRemoveCompleteSet_spec [of "[faceUp ''-1'' Hearts R5]"]
  by (simp add: kingToAce_def faceUp_def faceDown_def eval_nat_numeral All_less_Suc)

text \<open>
  C9, as stated: for every column, a second application of \<open>checkAndRemoveCompleteSet\<close> to the
  column returned by the first reports \<open>removed = False\<close>. It fails on a column that holds two
  complete sets on top of each other: the first application excises the upper one, the second
  the lower one.
\<close>

theorem second_check_counterexample:
  "removed (checkAndRemoveCompleteSet (newColumn (checkAndRemoveCompleteSet
      (kingToAce ''-1'' Spades @ kingToAce ''-2'' Spades))))"
  by (simp add: checkAndRemoveCompleteSet_def isCompleteSet_def exposeTop_def kingToAce_def faceUp_def)

text \<open>
  C9, amended. The second application of \<open>checkAndRemoveCompleteSet\<close> reports a removal exactly
  when the first one removed a set, the column had at least 26 cards, and the 13 cards beneath
  the excised set form a complete set themselves once their top card is exposed. In particular
  it reports \<open>removed = False\<close> for every column of fewer than 26 cards.
\<close>

theorem second_check_removed_iff:
  "removed (checkAndRemoveCompleteSet (newColumn (checkAndRemoveCompleteSet c))) =
     (removed (checkAndRemoveCompleteSet c) \<and> 26 \<le> length c \<and>
      isCompleteSet (exposeTop (take 13 (drop (length c - 26) c))))
   \<and> (length c < 26 \<longrightarrow>
        \<not> removed (checkAndRemoveCompleteSet (newColumn (checkAndRemoveCompleteSet c))))"
proof -
  have main: "removed (checkAndRemoveCompleteSet (newColumn (checkAndRemoveCompleteSet c))) =
     (removed (checkAndRemoveCompleteSet c) \<and> 26 \<le> length c \<and>
      isCompleteSet (exposeTop (take 13 (drop (length c - 26) c))))"
  proof (cases "removed (checkAndRemoveCompleteSet c)")
    case False
    then show ?thesis by (simp add: not_removed_newColumn)
  next
    case True
    note len = removed_length [OF True]
    define c' where "c' = exposeTop (take (length c - 13) c)"
    have c': "newColumn (checkAndRemoveCompleteSet c) = c'"
      using True by (simp add: removed_newColumn c'_def)
    have len': "length c' = length c - 13"
      by (simp add: c'_def length_exposeTop)
    show ?thesis
    proof (cases "26 \<le> length c")
      case False
      then have "length c' < 13" using len' by simp
      then show ?thesis using False c' by (simp add: checkAndRemoveCompleteSet_def)
    next
      case big: True
      then have "length c - 26 < length (take (length c - 13) c)" by simp
      then have "drop (length c - 26) c' = exposeTop (drop (length c - 26) (take (length c - 13) c))"
        unfolding c'_def by (rule drop_exposeTop)
      also have "drop (length c - 26) (take (length c - 13) c) = take 13 (drop (length c - 26) c)"
        using big by (simp add: drop_take)
      finally have tail: "drop (length c' - 13) c' = exposeTop (take 13 (drop (length c - 26) c))"
        using len' by simp
      have "\<not> length c' < 13" using big len' by simp
      then show ?thesis using True big c' tail
        by (simp add: checkAndRemoveCompleteSet_def)
    qed
  qed
  then show ?thesis by simp
qed

theorem second_check_removed_iff_witness:
  "\<not> removed (checkAndRemoveCompleteSet (newColumn (checkAndRemoveCompleteSet
      (faceDown ''-1'' Hearts R5 # kingToAce ''-2'' Clubs))))
   \<and> removed (checkAndRemoveCompleteSet (faceDown ''-1'' Hearts R5 # kingToAce ''-2'' Clubs))"
  using second_check_removed_iff [of "faceDown ''-1'' Hearts R5 # kingToAce ''-2'' Clubs"]
  by (simp add: checkAndRemoveCompleteSet_def isCompleteSet_def exposeTop_def kingToAce_def faceUp_def faceDown_def)

section \<open>Properties of the game controller\<close>

subsection \<open>The tableau after a move, a deal and the removal of sets\<close>

lemma length_moveOnto: "length (moveOnto sel c mv t) = length t"
  by (simp add: moveOnto_def)

lemma nth_moveOnto:
  "i < length t \<Longrightarrow>
   moveOnto sel c mv t ! i =
     (if i = colIndex sel then exposeTop (take (cardIndex sel) (t ! i))
      else if i = c then t ! i @ mv else t ! i)"
  by (simp add: moveOnto_def nth_enumerate_eq)

lemma length_moveToEmpty: "length (moveToEmpty sel c mv t) = length t"
  by (simp add: moveToEmpty_def)

lemma nth_moveToEmpty:
  "i < length t \<Longrightarrow>
   moveToEmpty sel c mv t ! i =
     (if i = colIndex sel then exposeTop (take (cardIndex sel) (t ! i))
      else if i = c then mv else t ! i)"
  by (simp add: moveToEmpty_def nth_enumerate_eq)

lemma moveOnto_update:
  assumes "colIndex sel < length t" "c < length t" "colIndex sel \<noteq> c"
  shows "moveOnto sel c mv t =
           t[colIndex sel := exposeTop (take (cardIndex sel) (t ! colIndex sel)), c := t ! c @ mv]"
  using assms
  by (intro nth_equalityI) (auto simp: length_moveOnto nth_moveOnto nth_list_update)

lemma moveToEmpty_update:
  assumes "colIndex sel < length t"
  shows "moveToEmpty sel c mv t =
           (t[c := mv])[colIndex sel := exposeTop (take (cardIndex sel) (t ! colIndex sel))]"
  using assms
  by (intro nth_equalityI) (auto simp: length_moveToEmpty nth_moveToEmpty nth_list_update)

lemma sum_length_update:
  "k < length t \<Longrightarrow>
   int (sum_list (map length (t[k := col]))) =
     int (sum_list (map length t)) - int (length (t ! k)) + int (length col)"
proof (induction t arbitrary: k)
  case Nil
  then show ?case by simp
next
  case (Cons a t)
  then show ?case by (cases k) auto
qed

lemma sum_length_moveOnto:
  assumes "colIndex sel < length t" "c < length t" "colIndex sel \<noteq> c"
  shows "int (sum_list (map length (moveOnto sel c (drop (cardIndex sel) (t ! colIndex sel)) t))) =
         int (sum_list (map length t))"
  using assms
  by (simp add: moveOnto_update sum_length_update length_exposeTop nth_list_update min_def)

lemma sum_length_moveToEmpty:
  assumes "colIndex sel < length t" "c < length t" "t ! c = []"
  shows "int (sum_list (map length (moveToEmpty sel c (drop (cardIndex sel) (t ! colIndex sel)) t))) =
         int (sum_list (map length t))"
proof (cases "c = colIndex sel")
  case True
  with assms show ?thesis
    by (simp add: moveToEmpty_update sum_length_update length_exposeTop)
next
  case False
  with assms show ?thesis
    by (simp add: moveToEmpty_update sum_length_update length_exposeTop nth_list_update min_def)
qed

lemma removeCompleteSets_total:
  "int (sum_list (map length (fst (removeCompleteSets t)))) + 13 * snd (removeCompleteSets t) =
   int (sum_list (map length t))"
proof (induction t)
  case Nil
  then show ?case by (simp add: removeCompleteSets_def)
next
  case (Cons col t)
  have "int (length (newColumn (checkAndRemoveCompleteSet col))) +
          13 * (if removed (checkAndRemoveCompleteSet col) then 1 else 0) = int (length col)"
    by (simp add: checkAndRemoveCompleteSet_def length_exposeTop)
  with Cons show ?case
    by (cases "removed (checkAndRemoveCompleteSet col)") (simp_all add: removeCompleteSets_def)
qed

lemma length_removeCompleteSets: "length (fst (removeCompleteSets t)) = length t"
  by (simp add: removeCompleteSets_def)

lemma dealLoop_total:
  "dealLoop i st t = Inr (st', t') \<Longrightarrow>
     length t' = length t \<and>
     int (sum_list (map length t')) + int (length st') = int (sum_list (map length t)) + int (length st)"
proof (induction i st t rule: dealLoop.induct)
  case (1 i newStock newTableau)
  show ?case
  proof (cases "i < 10")
    case False
    with "1.prems" show ?thesis by (simp add: dealLoop.simps [of i])
  next
    case True
    show ?thesis
    proof (cases "newStock = []")
      case e: True
      with True "1.prems" have "dealLoop (i + 1) newStock newTableau = Inr (st', t')"
        by (simp add: dealLoop.simps [of i])
      from "1.IH"(1) [OF True e this] show ?thesis .
    next
      case ne: False
      show ?thesis
      proof (cases "i < length newTableau")
        case False
        with True ne "1.prems" show ?thesis by (simp add: dealLoop.simps [of i])
      next
        case col: True
        with True ne "1.prems"
        have "dealLoop (i + 1) (butlast newStock)
             (newTableau[i := newTableau ! i @ [(last newStock)\<lparr>isFaceUp := True\<rparr>]]) = Inr (st', t')"
          by (simp add: dealLoop.simps [of i])
        from "1.IH"(2) [OF True ne col this] col ne show ?thesis
          by (simp add: sum_length_update) (cases newStock rule: rev_cases; simp)
      qed
    qed
  qed
qed

subsection \<open>The number of cards in play\<close>

lemma length_dealColumns: "length (dealColumns sizes deck) = length sizes"
  by (induction sizes arbitrary: deck) simp_all

lemma sum_length_dealColumns:
  "sum_list sizes \<le> length deck \<Longrightarrow> sum_list (map length (dealColumns sizes deck)) = sum_list sizes"
  by (induction sizes arbitrary: deck) (simp_all add: length_exposeTop)

lemma initGame_total:
  assumes "length deck = 104" "gameState (initGame deck) = Some gs"
  shows "length (tableau gs) = 10 \<and> totalCards gs = 104"
proof -
  have gs: "gs = \<lparr>tableau = dealColumns [6, 6, 6, 6, 5, 5, 5, 5, 5, 5] deck, stock = drop 54 deck,
                  foundations = 0, moves = 0, score = 500\<rparr>"
    using assms(2) by (simp add: initGame_def dealInitial_def)
  have "sum_list (map length (dealColumns [6, 6, 6, 6, 5, 5, 5, 5, 5, 5] deck)) = 54"
    using assms(1) by (subst sum_length_dealColumns) simp_all
  then show ?thesis
    using assms(1) by (simp add: gs totalCards_def length_dealColumns)
qed

lemma handleDeal_total:
  assumes "handleDeal app = Inr (app', msg)" "gameState app = Some gs"
  shows "\<exists>gs'. gameState app' = Some gs' \<and> length (tableau gs') = length (tableau gs) \<and>
               totalCards gs' = totalCards gs"
proof (cases "length (stock gs) = 0 \<or> list_ex (\<lambda>col. length col = 0) (tableau gs)")
  case True
  with assms have "app' = app" by (auto simp: handleDeal_def split: if_splits)
  with assms(2) show ?thesis by simp
next
  case False
  with assms obtain st' t' where loop: "dealLoop 0 (stock gs) (tableau gs) = Inr (st', t')"
    and app': "app' = app\<lparr>gameState := Some (gs\<lparr>stock := st', tableau := t', moves := moves gs + 1\<rparr>)\<rparr>"
    by (auto simp: handleDeal_def split: if_splits sum.splits)
  from dealLoop_total [OF loop] show ?thesis
    by (simp add: app' totalCards_def)
qed

lemma handleCardClick_gameState:
  assumes "handleCardClick c k app = Inr app'" "gameState app = Some gs"
  shows "(gameState app' = Some gs) \<or>
         (\<exists>sel. selectedCards app = Some sel \<and> colIndex sel \<noteq> c \<and> c < length (tableau gs) \<and>
            colIndex sel < length (tableau gs) \<and>
            isValidMove (drop (cardIndex sel) (tableau gs ! colIndex sel))
              (if tableau gs ! c = [] then None else Some (last (tableau gs ! c))) \<and>
            gameState app' =
              Some (gs\<lparr>tableau := fst (removeCompleteSets (moveOnto sel c
                           (drop (cardIndex sel) (tableau gs ! colIndex sel)) (tableau gs))),
                       foundations := foundations gs + snd (removeCompleteSets (moveOnto sel c
                           (drop (cardIndex sel) (tableau gs ! colIndex sel)) (tableau gs))),
                       moves := moves gs + 1,
                       score := score gs + snd (removeCompleteSets (moveOnto sel c
                           (drop (cardIndex sel) (tableau gs ! colIndex sel)) (tableau gs))) * 100 - 1\<rparr>))"
proof (cases "c < length (tableau gs)")
  case False
  with assms show ?thesis by (simp add: handleCardClick_def)
next
  case c: True
  show ?thesis
  proof (cases "selectedCards app")
    case None
    with assms c have "gameState app' = Some gs"
      by (auto simp: handleCardClick_def Let_def split: if_splits)
    then show ?thesis by simp
  next
    case (Some sel)
    show ?thesis
    proof (cases "colIndex sel = c")
      case True
      with assms c Some have "gameState app' = Some gs"
        by (auto simp: handleCardClick_def)
      then show ?thesis by simp
    next
      case ne: False
      show ?thesis
      proof (cases "colIndex sel < length (tableau gs)")
        case False
        with assms c Some ne show ?thesis by (simp add: handleCardClick_def)
      next
        case src: True
        show ?thesis
        proof (cases "isValidMove (drop (cardIndex sel) (tableau gs ! colIndex sel))
              (if tableau gs ! c = [] then None else Some (last (tableau gs ! c)))")
          case False
          with assms c Some ne src have "gameState app' = Some gs"
            by (auto simp: handleCardClick_def Let_def split: if_splits)
          then show ?thesis by simp
        next
          case True
          with assms c Some ne src show ?thesis
            by (auto simp: handleCardClick_def Let_def split: prod.splits)
        qed
      qed
    qed
  qed
qed

lemma handleCardClick_total:
  assumes "handleCardClick c k app = Inr app'" "gameState app = Some gs"
  shows "\<exists>gs'. gameState app' = Some gs' \<and> length (tableau gs') = length (tableau gs) \<and>
               totalCards gs' = totalCards gs"
  using handleCardClick_gameState [OF assms]
proof (elim disjE exE conjE)
  assume "gameState app' = Some gs"
  then show ?thesis by simp
next
  fix sel
  define newTableau where
    "newTableau = moveOnto sel c (drop (cardIndex sel) (tableau gs ! colIndex sel)) (tableau gs)"
  assume sel: "colIndex sel \<noteq> c" "c < length (tableau gs)" "colIndex sel < length (tableau gs)"
    and gs': "gameState app' =
              Some (gs\<lparr>tableau := fst (removeCompleteSets (moveOnto sel c
                           (drop (cardIndex sel) (tableau gs ! colIndex sel)) (tableau gs))),
                       foundations := foundations gs + snd (removeCompleteSets (moveOnto sel c
                           (drop (cardIndex sel) (tableau gs ! colIndex sel)) (tableau gs))),
                       moves := moves gs + 1,
                       score := score gs + snd (removeCompleteSets (moveOnto sel c
                           (drop (cardIndex sel) (tableau gs ! colIndex sel)) (tableau gs))) * 100 - 1\<rparr>)"
  have "int (sum_list (map length newTableau)) = int (sum_list (map length (tableau gs)))"
    unfolding newTableau_def using sel by (intro sum_length_moveOnto) simp_all
  moreover have "length newTableau = length (tableau gs)"
    by (simp add: newTableau_def length_moveOnto)
  ultimately show ?thesis
    using removeCompleteSets_total [of newTableau] length_removeCompleteSets [of newTableau]
    unfolding gs' newTableau_def [symmetric]
    by (simp add: totalCards_def)
qed

lemma handleEmptyColumnClick_total:
  assumes "handleEmptyColumnClick c app = Inr app'" "gameState app = Some gs"
    "c < length (tableau gs)" "tableau gs ! c = []"
  shows "\<exists>gs'. gameState app' = Some gs' \<and> length (tableau gs') = length (tableau gs) \<and>
               totalCards gs' = totalCards gs"
proof (cases "selectedCards app")
  case None
  with assms have "app' = app" by (simp add: handleEmptyColumnClick_def)
  with assms(2) show ?thesis by simp
next
  case (Some sel)
  with assms have inrange: "colIndex sel < length (tableau gs)"
    by (auto simp: handleEmptyColumnClick_def split: if_splits)
  with assms Some have app': "app' = app\<lparr>gameState :=
       Some (gs\<lparr>tableau := moveToEmpty sel c (drop (cardIndex sel) (tableau gs ! colIndex sel)) (tableau gs),
                moves := moves gs + 1, score := score gs - 1\<rparr>), selectedCards := None\<rparr>"
    by (simp add: handleEmptyColumnClick_def Let_def)
  show ?thesis
    using sum_length_moveToEmpty [OF inrange assms(3,4)]
    by (simp add: app' totalCards_def length_moveToEmpty)
qed

lemma columnOnClick_total:
  assumes "columnOnClick c app = Inr app'" "gameState app = Some gs"
  shows "\<exists>gs'. gameState app' = Some gs' \<and> length (tableau gs') = length (tableau gs) \<and>
               totalCards gs' = totalCards gs"
proof (cases "c < length (tableau gs) \<and> length (tableau gs ! c) = 0")
  case True
  with assms have "handleEmptyColumnClick c app = Inr app'" by (simp add: columnOnClick_def)
  from handleEmptyColumnClick_total [OF this assms(2)] True show ?thesis by simp
next
  case False
  with assms have "app' = app" by (auto simp: columnOnClick_def)
  with assms(2) show ?thesis by simp
qed

lemma perform_total:
  assumes "perform action app = Some app'" "gameState app = Some gs"
    "\<forall>deck. action \<noteq> NewGame deck"
  shows "\<exists>gs'. gameState app' = Some gs' \<and> length (tableau gs') = length (tableau gs) \<and>
               totalCards gs' = totalCards gs"
proof (cases action)
  case (NewGame deck)
  with assms(3) show ?thesis by simp
next
  case Deal
  with assms(1,2) obtain msg where "handleDeal app = Inr (app', msg)"
    by (auto simp: perform_def split: sum.splits if_splits)
  from handleDeal_total [OF this assms(2)] show ?thesis .
next
  case (CardClick c k)
  with assms(1,2) have "handleCardClick c k app = Inr app'"
    by (auto simp: perform_def split: sum.splits if_splits)
  from handleCardClick_total [OF this assms(2)] show ?thesis .
next
  case (ColumnClick c)
  with assms(1,2) have "columnOnClick c app = Inr app'"
    by (auto simp: perform_def split: sum.splits if_splits)
  from columnOnClick_total [OF this assms(2)] show ?thesis .
qed

lemma perform_gameState_None:
  assumes "perform action app = Some app'" "gameState app = None" "gameState app' = Some gs'"
  shows "\<exists>deck. action = NewGame deck"
  using assms
  by (cases action)
    (auto simp: perform_def handleDeal_def split: sum.splits if_splits)

lemma reachable_total:
  "reachable app \<Longrightarrow> gameState app = Some gs \<Longrightarrow> length (tableau gs) = 10 \<and> totalCards gs = 104"
proof (induction arbitrary: gs rule: reachable.induct)
  case reach_mounted
  then show ?case by (simp add: mounted_def)
next
  case (reach_perform app action app')
  show ?case
  proof (cases "\<exists>deck. action = NewGame deck")
    case True
    then obtain deck where "action = NewGame deck" by blast
    with reach_perform.hyps(2) have "length deck = 104" "app' = initGame deck"
      by (auto simp: perform_def split: if_splits)
    with reach_perform.prems initGame_total show ?thesis by blast
  next
    case False
    with perform_gameState_None [OF reach_perform.hyps(2) _ reach_perform.prems]
    obtain gs0 where gs0: "gameState app = Some gs0" by (cases "gameState app") auto
    from perform_total [OF reach_perform.hyps(2) gs0] False reach_perform.prems
      reach_perform.IH [OF gs0]
    show ?thesis by auto
  qed
qed

subsection \<open>The example game\<close>

lemma opening_eval: "play openingPlay mounted = Some emptyColumnGame"
  by code_simp

lemma middle_eval: "play middlePlay emptyColumnGame = Some blockedGame"
  by code_simp

lemma select_eval: "perform (CardClick 0 18) blockedGame = Some selectedGame"
  by code_simp

lemma move_eval: "perform (ColumnClick 4) selectedGame = Some unremovedGame"
  by code_simp

lemma reachable_play: "reachable app \<Longrightarrow> play actions app = Some app' \<Longrightarrow> reachable app'"
proof (induction actions arbitrary: app)
  case Nil
  then show ?case by simp
next
  case (Cons action actions)
  from Cons.prems(2) obtain app1 where step: "perform action app = Some app1"
    and rest: "play actions app1 = Some app'"
    by (auto split: option.splits)
  from Cons.prems(1) step have "reachable app1" by (rule reach_perform)
  from Cons.IH [OF this rest] show ?case .
qed

lemma reachable_emptyColumnGame: "reachable emptyColumnGame"
  using reach_mounted opening_eval by (rule reachable_play)

lemma reachable_blockedGame: "reachable blockedGame"
  using reachable_emptyColumnGame middle_eval by (rule reachable_play)

lemma reachable_selectedGame: "reachable selectedGame"
  using reachable_blockedGame select_eval by (rule reach_perform)

lemma reachable_unremovedGame: "reachable unremovedGame"
  using reachable_selectedGame move_eval by (rule reach_perform)

lemma handleDeal_score:
  assumes "handleDeal app = Inr (app', msg)" "gameState app = Some gs"
  shows "app' = app \<or>
         (\<exists>gs'. gameState app' = Some gs' \<and> moves gs' = moves gs + 1 \<and> score gs' = score gs \<and>
                foundations gs' = foundations gs)"
  using assms by (auto simp: handleDeal_def split: if_splits sum.splits)

subsection \<open>Dealing\<close>

text \<open>
  C10. For every game state whose stock is empty, \<open>handleDeal\<close> returns at once: no alert is
  shown and the state of the component, with the tableau, the stock, the foundations, the moves
  and the score, is the one it was called with.
\<close>

theorem handleDeal_empty_stock:
  "gameState app = Some gs \<Longrightarrow> stock gs = [] \<Longrightarrow> handleDeal app = Inr (app, None)"
  by (simp add: handleDeal_def)

theorem handleDeal_empty_stock_witness:
  "gameState unremovedGame = Some unremovedState \<and> stock unremovedState = [] \<and>
   handleDeal unremovedGame = Inr (unremovedGame, None)"
proof -
  have g: "gameState unremovedGame = Some unremovedState" by (simp add: unremovedGame_def)
  have s: "stock unremovedState = []" by (simp add: unremovedState_def)
  from handleDeal_empty_stock [OF g s] g s show ?thesis by simp
qed

text \<open>
  C6. For every game state in which at least one column of the tableau is empty, an attempt to
  deal is rejected with a message to the player and changes nothing: the state of the component,
  with the tableau, the stock, the foundations, the moves and the score, is the one the handler
  was called with. A deal can be attempted while the stock holds cards: the stock is rendered
  for clicking only then (lines 253-257), and \<open>perform\<close> offers the action only then.
\<close>

theorem deal_rejected_with_empty_column:
  assumes "gameState app = Some gs" "\<exists>col \<in> set (tableau gs). col = []" "stock gs \<noteq> []"
  shows "handleDeal app =
           Inr (app, Some ''All columns must have at least one card before dealing from the stock.'')
         \<and> perform Deal app = Some app"
proof -
  from assms have rejected: "handleDeal app =
      Inr (app, Some ''All columns must have at least one card before dealing from the stock.'')"
    by (auto simp: handleDeal_def list_ex_iff)
  with assms(1,3) have "perform Deal app = Some app"
    by (simp add: perform_def)
  with rejected show ?thesis by simp
qed

theorem deal_rejected_with_empty_column_witness:
  "reachable emptyColumnGame \<and> gameState emptyColumnGame = Some emptyColumnState \<and>
   tableau emptyColumnState ! 4 = [] \<and> length (stock emptyColumnState) = 50 \<and>
   handleDeal emptyColumnGame =
     Inr (emptyColumnGame,
          Some ''All columns must have at least one card before dealing from the stock.'') \<and>
   perform Deal emptyColumnGame = Some emptyColumnGame"
proof -
  have g: "gameState emptyColumnGame = Some emptyColumnState" by (simp add: emptyColumnGame_def)
  have c: "tableau emptyColumnState ! 4 = []" by code_simp
  have n: "length (tableau emptyColumnState) = 10" by code_simp
  have "4 < length (tableau emptyColumnState)" using n by simp
  then have "tableau emptyColumnState ! 4 \<in> set (tableau emptyColumnState)" by (rule nth_mem)
  with c have e: "\<exists>col \<in> set (tableau emptyColumnState). col = []" by auto
  have s: "length (stock emptyColumnState) = 50" by code_simp
  then have ne: "stock emptyColumnState \<noteq> []" by auto
  from deal_rejected_with_empty_column [OF g e ne] reachable_emptyColumnGame g c s
  show ?thesis by simp
qed

text \<open>
  C4. In every reachable game state the score is 500 plus 100 for each completed set minus the
  number of moves. The code breaks it with the first deal: \<open>handleDeal\<close> adds 1 to the moves
  (line 56) and leaves the score, where \<open>handleCardClick\<close> (lines 107-108) and
  \<open>handleEmptyColumnClick\<close> (lines 157-158) take 1 off the score with every move they count.
  After a new game and one deal the moves are 1 and the score is still 500, not 499.
\<close>

theorem deal_counts_move_keeps_score:
  "\<exists>app gs. play [NewGame demoDeck, Deal] mounted = Some app \<and> reachable app \<and>
     gameState app = Some gs \<and> moves gs = 1 \<and> foundations gs = 0 \<and> score gs = 500 \<and>
     score gs \<noteq> 500 + 100 * foundations gs - moves gs"
proof -
  have "play [NewGame demoDeck, Deal] mounted \<noteq> None"
    by code_simp
  then obtain app where app: "play [NewGame demoDeck, Deal] mounted = Some app"
    by blast
  have "map_option (\<lambda>app. map_option (\<lambda>gs. (moves gs, foundations gs, score gs)) (gameState app))
          (play [NewGame demoDeck, Deal] mounted) = Some (Some (1, 0, 500))"
    by code_simp
  with app obtain gs where gs: "gameState app = Some gs" "moves gs = 1" "foundations gs = 0"
    "score gs = 500"
    by auto
  from reach_mounted app have "reachable app" by (rule reachable_play)
  with app gs show ?thesis by auto
qed

subsection \<open>The card total\<close>

text \<open>
  C5. In every reachable game state the tableau has 10 columns, and the cards in the columns,
  the cards in the stock and 13 cards for every completed set add up to 104. Every action of the
  player but the start of a new game (a click on the stock, on a card or on a column, with the
  moves, deals and removals of sets that follow from it) keeps the number of columns and this
  total, in every state.
\<close>

theorem totalCards_invariant:
  "(reachable app \<and> gameState app = Some gs \<longrightarrow>
      length (tableau gs) = 10 \<and> totalCards gs = 104) \<and>
   (perform action app = Some app' \<and> gameState app = Some gs \<and> gameState app' = Some gs' \<and>
    (\<forall>deck. action \<noteq> NewGame deck) \<longrightarrow>
      length (tableau gs') = length (tableau gs) \<and> totalCards gs' = totalCards gs)"
proof (intro conjI impI)
  assume "reachable app \<and> gameState app = Some gs"
  then have "length (tableau gs) = 10 \<and> totalCards gs = 104"
    using reachable_total by blast
  then show "length (tableau gs) = 10" and "totalCards gs = 104" by simp_all
next
  assume a: "perform action app = Some app' \<and> gameState app = Some gs \<and>
    gameState app' = Some gs' \<and> (\<forall>deck. action \<noteq> NewGame deck)"
  then have "\<exists>gs'. gameState app' = Some gs' \<and> length (tableau gs') = length (tableau gs) \<and>
               totalCards gs' = totalCards gs"
    using perform_total [of action app app' gs] by blast
  with a show "length (tableau gs') = length (tableau gs)" and "totalCards gs' = totalCards gs"
    by auto
qed

theorem totalCards_invariant_witness:
  "reachable selectedGame \<and> gameState selectedGame = Some blockedState \<and>
   length (tableau blockedState) = 10 \<and> totalCards blockedState = 104 \<and>
   perform (ColumnClick 4) selectedGame = Some unremovedGame \<and>
   gameState unremovedGame = Some unremovedState \<and>
   totalCards unremovedState = totalCards blockedState"
proof -
  have g: "gameState selectedGame = Some blockedState"
    by (simp add: selectedGame_def blockedGame_def)
  have g': "gameState unremovedGame = Some unremovedState"
    by (simp add: unremovedGame_def)
  from totalCards_invariant [of selectedGame blockedState "ColumnClick 4" unremovedGame unremovedState]
    reachable_selectedGame move_eval g g'
  show ?thesis by simp
qed

subsection \<open>Moves to an empty column\<close>

text \<open>
  C8. For every game state with a selection in a column of the tableau and every empty column
  that is clicked, \<open>handleEmptyColumnClick\<close> succeeds: the clicked column receives the whole
  selected suffix, the source column keeps the cards below it with its new top card exposed, the
  move is counted, the score drops by 1 and the selection is cleared. No condition on ranks or
  suits is imposed, and \<open>isValidMove\<close>, which rejects every move to an absent destination card,
  is not consulted. The click on the column (\<open>columnOnClick\<close>) does the same.
\<close>

theorem handleEmptyColumnClick_unconditional:
  assumes "gameState app = Some gs" "selectedCards app = Some sel"
    "colIndex sel < length (tableau gs)" "clicked < length (tableau gs)"
    "tableau gs ! clicked = []"
  shows "handleEmptyColumnClick clicked app =
           Inr (app\<lparr>gameState :=
                  Some (gs\<lparr>tableau :=
                             (tableau gs)
                               [clicked := drop (cardIndex sel) (tableau gs ! colIndex sel),
                                colIndex sel :=
                                  exposeTop (take (cardIndex sel) (tableau gs ! colIndex sel))],
                           moves := moves gs + 1,
                           score := score gs - 1\<rparr>),
                selectedCards := None\<rparr>)
         \<and> columnOnClick clicked app = handleEmptyColumnClick clicked app
         \<and> \<not> isValidMove (drop (cardIndex sel) (tableau gs ! colIndex sel)) None"
  using assms
  by (simp add: handleEmptyColumnClick_def Let_def moveToEmpty_update columnOnClick_def
      isValidMove_def)

theorem handleEmptyColumnClick_unconditional_witness:
  "gameState selectedGame = Some blockedState \<and>
   selectedCards selectedGame = Some \<lparr>colIndex = 0, cardIndex = 18\<rparr> \<and>
   canMoveSequence (drop 18 (tableau blockedState ! 0)) \<and>
   tableau blockedState ! 4 = [] \<and>
   handleEmptyColumnClick 4 selectedGame = Inr unremovedGame"
proof -
  have g: "gameState selectedGame = Some blockedState"
    by (simp add: selectedGame_def blockedGame_def)
  have s: "selectedCards selectedGame = Some \<lparr>colIndex = 0, cardIndex = 18\<rparr>"
    by (simp add: selectedGame_def)
  have src: "colIndex \<lparr>colIndex = 0, cardIndex = 18\<rparr> < length (tableau blockedState)"
    by code_simp
  have dst: "4 < length (tableau blockedState)" by code_simp
  have e: "tableau blockedState ! 4 = []" by code_simp
  have m: "canMoveSequence (drop 18 (tableau blockedState ! 0))" by code_simp
  have eq: "selectedGame\<lparr>gameState :=
                  Some (blockedState\<lparr>tableau :=
                             (tableau blockedState)
                               [4 := drop 18 (tableau blockedState ! 0),
                                0 := exposeTop (take 18 (tableau blockedState ! 0))],
                           moves := moves blockedState + 1,
                           score := score blockedState - 1\<rparr>),
                selectedCards := None\<rparr> = unremovedGame"
    by code_simp
  from handleEmptyColumnClick_unconditional [OF g s src dst e] eq
  have "handleEmptyColumnClick 4 selectedGame = Inr unremovedGame" by simp
  with g s e m show ?thesis by simp
qed

text \<open>
  C7. After every successful move, a move to an empty column included, the check for complete
  sets should run once on each column, so that no complete set stays on the tableau. The move of
  \<open>handleCardClick\<close> runs it (lines 94-99); \<open>handleEmptyColumnClick\<close> does not. In the example
  game the player moves the 8 that covers King down to Ace on column 0 to the empty column 4:
  the move succeeds, and column 0 still ends with the complete set, which
  \<open>checkAndRemoveCompleteSet\<close> would remove; the foundations stay at 0.
\<close>

theorem emptyColumnMove_leaves_complete_set:
  "reachable selectedGame \<and>
   perform (ColumnClick 4) selectedGame = Some unremovedGame \<and>
   gameState unremovedGame = Some unremovedState \<and>
   length (tableau unremovedState ! 0) = 18 \<and>
   isCompleteSet (drop 5 (tableau unremovedState ! 0)) \<and>
   removed (checkAndRemoveCompleteSet (tableau unremovedState ! 0)) \<and>
   fst (removeCompleteSets (tableau unremovedState)) \<noteq> tableau unremovedState \<and>
   foundations unremovedState = 0"
proof -
  have "gameState unremovedGame = Some unremovedState" by (simp add: unremovedGame_def)
  moreover have "length (tableau unremovedState ! 0) = 18" by code_simp
  moreover have "isCompleteSet (drop 5 (tableau unremovedState ! 0))" by code_simp
  moreover have "removed (checkAndRemoveCompleteSet (tableau unremovedState ! 0))" by code_simp
  moreover have "fst (removeCompleteSets (tableau unremovedState)) \<noteq> tableau unremovedState"
    by code_simp
  moreover have "foundations unremovedState = 0" by (simp add: unremovedState_def)
  ultimately show ?thesis using reachable_selectedGame move_eval by simp
qed

end
